theory Spec2Isabelle
  imports Main "HOL-Library.Word"
begin

unbundle bit_operations_syntax

section \<open>Runtime types and interface values\<close>

text \<open>
  The router and the dispatcher key their maps by \<^verbatim>\<open>reflect.Type\<close>. A runtime type is the
  pointer type built on another type, or a type that is no pointer type, identified by its
  name as \<^verbatim>\<open>Type.String()\<close> prints it (\<^verbatim>\<open>gocmdevt.CreateUserCommand\<close>).
\<close>

datatype rtype = Named string | Pointer rtype

fun rtype_String :: "rtype \<Rightarrow> string" where
  "rtype_String (Named n) = n"
| "rtype_String (Pointer t) = CHR ''*'' # rtype_String t"

text \<open>
  \<^verbatim>\<open>type Command interface{}\<close> and \<^verbatim>\<open>type Event interface{...}\<close>: an interface value is
  nil, or a dynamic type together with the data stored under it.
\<close>

datatype 'p iface = NilValue | Dyn rtype 'p

text \<open>\<^verbatim>\<open>reflect.TypeOf\<close> returns the nil \<^verbatim>\<open>Type\<close> (here \<open>None\<close>) for a nil interface value.\<close>

fun reflect_TypeOf :: "'p iface \<Rightarrow> rtype option" where
  "reflect_TypeOf NilValue = None"
| "reflect_TypeOf (Dyn t p) = Some t"

text \<open>The verb \<^verbatim>\<open>%T\<close> of package fmt: the name of the dynamic type, \<^verbatim>\<open><nil>\<close> for nil.\<close>

definition fmt_T :: "'p iface \<Rightarrow> string" where
  "fmt_T v = (case reflect_TypeOf v of None \<Rightarrow> ''<nil>'' | Some t \<Rightarrow> rtype_String t)"

text \<open>An \<^verbatim>\<open>error\<close> value, with the message its \<^verbatim>\<open>Error()\<close> method returns.\<close>

datatype error = Error string

fun error_Error :: "error \<Rightarrow> string" where
  "error_Error (Error msg) = msg"

section \<open>The command router\<close>

text \<open>
  \<^verbatim>\<open>type HandlerFunc func(ctx context.Context, cmd Command) (any, error)\<close>.
  A handler may have effects (the example handlers emit events), so it takes the state of
  the world \<open>'w\<close> and returns the new one next to its two results. The result \<^verbatim>\<open>any\<close>
  and the error are \<open>None\<close> when nil. A handler is a function that returns: a nil function
  value and a call that panics or runs forever are not values of this type.
\<close>

type_synonym ('ctx, 'p, 'r, 'w) HandlerFunc =
  "'ctx \<Rightarrow> 'p iface \<Rightarrow> 'w \<Rightarrow> ('r option \<times> error option) \<times> 'w"

text \<open>
  \<^verbatim>\<open>type Module interface { Handlers() map[reflect.Type]HandlerFunc }\<close>. A module is
  given by the entries of the map its \<^verbatim>\<open>Handlers()\<close> returns, listed in the order in which
  the \<^verbatim>\<open>range\<close> loop of \<^verbatim>\<open>NewApp\<close> visits them (Go leaves that order open). The keys of a Go
  map are pairwise distinct: \<open>distinct (map fst (Handlers m))\<close>.
\<close>

record 'h Module =
  Handlers :: "(rtype option \<times> 'h) list"

text \<open>\<^verbatim>\<open>type App struct { handlers map[reflect.Type]HandlerFunc }\<close>\<close>

record 'h App =
  handlers :: "rtype option \<rightharpoonup> 'h"

text \<open>
  The inner loop of \<^verbatim>\<open>NewApp\<close>:
  \<^verbatim>\<open>for typ, h := range m.Handlers() { app.handlers[typ] = h }\<close>
\<close>

fun range_Handlers :: "(rtype option \<times> 'h) list \<Rightarrow> 'h App \<Rightarrow> 'h App" where
  "range_Handlers [] app = app"
| "range_Handlers ((typ, h) # rest) app =
     range_Handlers rest (app\<lparr>handlers := (handlers app)(typ \<mapsto> h)\<rparr>)"

text \<open>The outer loop: \<^verbatim>\<open>for _, m := range modules { ... }\<close>\<close>

fun range_modules :: "'h Module list \<Rightarrow> 'h App \<Rightarrow> 'h App" where
  "range_modules [] app = app"
| "range_modules (m # ms) app = range_modules ms (range_Handlers (Handlers m) app)"

definition NewApp :: "'h Module list \<Rightarrow> 'h App" where
  "NewApp modules = range_modules modules \<lparr>handlers = Map.empty\<rparr>"

text \<open>
  \<^verbatim>\<open>
  func (a *App) Handle(ctx context.Context, cmd Command) (any, error) {
      handler, ok := a.handlers[reflect.TypeOf(cmd)]
      if !ok {
          return nil, fmt.Errorf("no handler for command type: %T", cmd)
      }
      return handler(ctx, cmd)
  }
  \<close>
\<close>

definition Handle ::
  "('ctx, 'p, 'r, 'w) HandlerFunc App \<Rightarrow> ('ctx, 'p, 'r, 'w) HandlerFunc" where
  "Handle a ctx cmd w =
     (case handlers a (reflect_TypeOf cmd) of
        None \<Rightarrow> ((None, Some (Error (''no handler for command type: '' @ fmt_T cmd))), w)
      | Some handler \<Rightarrow> handler ctx cmd w)"

section \<open>The subscription registry\<close>

text \<open>
  \<^verbatim>\<open>type EventHandlerFunc func(ctx context.Context, cmd Event) (any, error)\<close>:
  the same shape as a command handler, applied to an event.
\<close>

type_synonym ('ctx, 'p, 'r, 'w) EventHandlerFunc =
  "'ctx \<Rightarrow> 'p iface \<Rightarrow> 'w \<Rightarrow> ('r option \<times> error option) \<times> 'w"

text \<open>
  \<^verbatim>\<open>type InMemoryDispatcher struct { handlers map[reflect.Type][]EventHandlerFunc }\<close>.
  The field is written \<open>handlers_d\<close>, the name \<open>handlers\<close> being the field of \<open>App\<close>.
  The map is the one \<^verbatim>\<open>NewInMemoryDispatcher\<close> allocates; the type of the subscribed
  functions is a parameter, since the two dispatchers of the repository differ in it.
\<close>

record 'h InMemoryDispatcher =
  handlers_d :: "rtype option \<rightharpoonup> 'h list"

definition NewInMemoryDispatcher :: "'h InMemoryDispatcher" where
  "NewInMemoryDispatcher = \<lparr>handlers_d = Map.empty\<rparr>"

text \<open>
  Indexing a map of slices: \<^verbatim>\<open>d.handlers[eventType]\<close> is the nil slice, of length 0, when
  the key is absent.
\<close>

definition index_slices :: "(rtype option \<rightharpoonup> 'h list) \<Rightarrow> rtype option \<Rightarrow> 'h list" where
  "index_slices m k = (case m k of None \<Rightarrow> [] | Some hs \<Rightarrow> hs)"

text \<open>
  Package main (matmaster):
  \<^verbatim>\<open>
  func (d *InMemoryDispatcher) Subscribe(event gocmdevt.Event, handler gocmdevt.EventHandlerFunc) {
      eventType := reflect.TypeOf(event)
      d.handlers[eventType] = append(d.handlers[eventType], handler)
  }
  \<close>
\<close>

definition Subscribe :: "'h InMemoryDispatcher \<Rightarrow> 'p iface \<Rightarrow> 'h \<Rightarrow> 'h InMemoryDispatcher" where
  "Subscribe d event handler =
     (let eventType = reflect_TypeOf event
      in d\<lparr>handlers_d := (handlers_d d)(eventType \<mapsto> index_slices (handlers_d d) eventType @ [handler])\<rparr>)"

text \<open>
  The loop \<^verbatim>\<open>for _, handler := range handlers { handler(ctx, event) }\<close>: both results of
  the handler are dropped, its effect on the world stays.
\<close>

fun range_handlers ::
  "('ctx, 'p, 'r, 'w) EventHandlerFunc list \<Rightarrow> 'ctx \<Rightarrow> 'p iface \<Rightarrow> 'w \<Rightarrow> 'w" where
  "range_handlers [] ctx event w = w"
| "range_handlers (handler # rest) ctx event w =
     range_handlers rest ctx event (snd (handler ctx event w))"

text \<open>
  \<^verbatim>\<open>
  func (d *InMemoryDispatcher) DispatchCtx(ctx context.Context, event gocmdevt.Event) {
      eventType := reflect.TypeOf(event)
      if handlers, exists := d.handlers[eventType]; exists {
          for _, handler := range handlers { handler(ctx, event) }
      }
  }
  \<close>
\<close>

definition DispatchCtx ::
  "('ctx, 'p, 'r, 'w) EventHandlerFunc InMemoryDispatcher \<Rightarrow> 'ctx \<Rightarrow> 'p iface \<Rightarrow> 'w \<Rightarrow> 'w" where
  "DispatchCtx d ctx event w =
     (let eventType = reflect_TypeOf event
      in case handlers_d d eventType of
           Some hs \<Rightarrow> range_handlers hs ctx event w
         | None \<Rightarrow> w)"

text \<open>
  The dispatcher of \<^verbatim>\<open>example_test.go\<close> (package \<^verbatim>\<open>gocmdevt_test\<close>) subscribes under a
  \<^verbatim>\<open>reflect.Type\<close> given by the caller, and its handlers are \<^verbatim>\<open>func(event gocmdevt.Event)\<close>:
  \<^verbatim>\<open>
  func (d *InMemoryDispatcher) Subscribe(eventType reflect.Type, handler func(event gocmdevt.Event)) {
      d.handlers[eventType] = append(d.handlers[eventType], handler)
  }
  func (d *InMemoryDispatcher) Dispatch(ctx context.Context, event gocmdevt.Event) {
      eventType := reflect.TypeOf(event)
      if handlers, exists := d.handlers[eventType]; exists {
          for _, handler := range handlers { handler(event) }
      }
  }
  \<close>
\<close>

definition Subscribe_example ::
  "'h InMemoryDispatcher \<Rightarrow> rtype option \<Rightarrow> 'h \<Rightarrow> 'h InMemoryDispatcher" where
  "Subscribe_example d eventType handler =
     d\<lparr>handlers_d := (handlers_d d)(eventType \<mapsto> index_slices (handlers_d d) eventType @ [handler])\<rparr>"

fun range_handlers_example :: "('p iface \<Rightarrow> 'w \<Rightarrow> 'w) list \<Rightarrow> 'p iface \<Rightarrow> 'w \<Rightarrow> 'w" where
  "range_handlers_example [] event w = w"
| "range_handlers_example (handler # rest) event w =
     range_handlers_example rest event (handler event w)"

definition Dispatch_example ::
  "('p iface \<Rightarrow> 'w \<Rightarrow> 'w) InMemoryDispatcher \<Rightarrow> 'ctx \<Rightarrow> 'p iface \<Rightarrow> 'w \<Rightarrow> 'w" where
  "Dispatch_example d ctx event w =
     (let eventType = reflect_TypeOf event
      in case handlers_d d eventType of
           Some hs \<Rightarrow> range_handlers_example hs event w
         | None \<Rightarrow> w)"

section \<open>The event pipeline\<close>

text \<open>
  \<^verbatim>\<open>Emit\<close> writes to the standard logger, so the world it runs in has the lines logged so
  far; whatever else the collaborators keep is the extension of the record.
\<close>

record world =
  stdlog :: "string list"

text \<open>\<^verbatim>\<open>log.Printf\<close>, applied to the formatted message (the logger's prefix left out).\<close>

definition log_Printf :: "string \<Rightarrow> 'a world_scheme \<Rightarrow> 'a world_scheme" where
  "log_Printf msg w = w\<lparr>stdlog := stdlog w @ [msg]\<rparr>"

text \<open>The verb \<^verbatim>\<open>%v\<close> applied to an error prints its \<^verbatim>\<open>Error()\<close>.\<close>

definition fmt_v :: "error \<Rightarrow> string" where
  "fmt_v err = error_Error err"

text \<open>
  \<^verbatim>\<open>
  type EventLogWriter interface { Write(event Event) error }
  type Dispatcher interface { Dispatch(ctx context.Context, event Event) }
  type EventEmitter struct { LogWriter EventLogWriter; Dispatcher Dispatcher }
  \<close>
  Each collaborator is given by its one method, a function that returns.
\<close>

record ('ctx, 'p, 'w) EventEmitter =
  LogWriter :: "'p iface \<Rightarrow> 'w \<Rightarrow> error option \<times> 'w"
  Dispatcher :: "'ctx \<Rightarrow> 'p iface \<Rightarrow> 'w \<Rightarrow> 'w"

definition NewEventEmitter ::
  "('p iface \<Rightarrow> 'w \<Rightarrow> error option \<times> 'w) \<Rightarrow> ('ctx \<Rightarrow> 'p iface \<Rightarrow> 'w \<Rightarrow> 'w)
     \<Rightarrow> ('ctx, 'p, 'w) EventEmitter" where
  "NewEventEmitter logWriter dispatcher = \<lparr>LogWriter = logWriter, Dispatcher = dispatcher\<rparr>"

text \<open>
  \<^verbatim>\<open>
  func (e *EventEmitter) Emit(ctx context.Context, event Event) {
      if err := e.LogWriter.Write(event); err != nil {
          log.Printf("audit log failed: %v", err)
      }
      e.Dispatcher.Dispatch(ctx, event)
  }
  \<close>
\<close>

definition Emit ::
  "('ctx, 'p, 'a world_scheme) EventEmitter \<Rightarrow> 'ctx \<Rightarrow> 'p iface \<Rightarrow> 'a world_scheme
     \<Rightarrow> 'a world_scheme" where
  "Emit e ctx event w =
     (let (err, w1) = LogWriter e event w;
          w2 = (case err of
                  Some err' \<Rightarrow> log_Printf (''audit log failed: '' @ fmt_v err') w1
                | None \<Rightarrow> w1)
      in Dispatcher e ctx event w2)"

section \<open>The event envelope\<close>

text \<open>
  A \<^verbatim>\<open>time.Time\<close> is an instant (nanoseconds since the epoch) shown in a location;
  \<^verbatim>\<open>t.UTC()\<close> keeps the instant and sets the location to UTC.
\<close>

datatype Location = Local | UTC

record time_Time =
  instant :: int
  loc :: Location

definition time_UTC :: "time_Time \<Rightarrow> time_Time" where
  "time_UTC t = t\<lparr>loc := UTC\<rparr>"

text \<open>
  What the constructor reads from outside the program: the clock and the random source.
  \<open>clock s n\<close> is the reading the \<open>n\<close>-th call of \<^verbatim>\<open>time.Now\<close> returns and \<open>ticks s\<close> the number
  of calls made so far; \<open>entropy s n\<close> is what the random source does at the \<open>n\<close>-th call of
  \<^verbatim>\<open>rand.Read\<close>, fail with an error or deliver bytes (byte \<open>i\<close> of the buffer is \<open>f i\<close>), and
  \<open>reads s\<close> the number of calls made so far.
\<close>

record sys =
  clock :: "nat \<Rightarrow> time_Time"
  ticks :: nat
  entropy :: "nat \<Rightarrow> error + (nat \<Rightarrow> 8 word)"
  reads :: nat

definition time_Now :: "sys \<Rightarrow> time_Time \<times> sys" where
  "time_Now s = (clock s (ticks s), s\<lparr>ticks := Suc (ticks s)\<rparr>)"

text \<open>
  \<^verbatim>\<open>crypto/rand.Read(b)\<close>, as of Go 1.24: it fills the whole of \<open>b\<close> and returns a nil
  error; it never returns an error, and when the source fails the program crashes
  irrecoverably. \<open>None\<close> is that end of the process: nothing is returned to the caller.
\<close>

definition rand_Read ::
  "8 word list \<Rightarrow> sys \<Rightarrow> ((8 word list \<times> error option) \<times> sys) option" where
  "rand_Read b s =
     (case entropy s (reads s) of
        Inl err \<Rightarrow> None
      | Inr f \<Rightarrow> Some ((map f [0..<length b], None), s\<lparr>reads := Suc (reads s)\<rparr>))"

text \<open>
  \<^verbatim>\<open>encoding/hex\<close>:
  \<^verbatim>\<open>
  const hextable = "0123456789abcdef"
  for _, v := range src { dst[j] = hextable[v>>4]; dst[j+1] = hextable[v&0x0f]; j += 2 }
  \<close>
\<close>

definition hextable :: string where
  "hextable = ''0123456789abcdef''"

fun hex_EncodeToString :: "8 word list \<Rightarrow> string" where
  "hex_EncodeToString [] = []"
| "hex_EncodeToString (v # src) =
     hextable ! unat (drop_bit 4 v) # hextable ! unat (v AND 0x0f) # hex_EncodeToString src"

text \<open>
  \<^verbatim>\<open>
  // generateEventID creates a unique identifier for events
  func generateEventID() string {
      bytes := make([]byte, 16)
      if _, err := rand.Read(bytes); err != nil {
          // Fallback to timestamp-based ID if random generation fails
          return time.Now().Format("20060102150405") + "-" + time.Now().Format("000000")
      }
      return hex.EncodeToString(bytes)
  }
  \<close>
  \<^verbatim>\<open>Time.Format\<close> belongs to the standard library; it is the parameter \<open>Format\<close>, applied to
  the time and the layout. The result is \<open>None\<close> when the process ends inside \<^verbatim>\<open>rand.Read\<close>.
\<close>

definition generateEventID ::
  "(time_Time \<Rightarrow> string \<Rightarrow> string) \<Rightarrow> sys \<Rightarrow> (string \<times> sys) option" where
  "generateEventID Format s =
     (let bytes = replicate 16 0
      in case rand_Read bytes s of
           None \<Rightarrow> None
         | Some ((bytes, err), s1) \<Rightarrow>
             (case err of
                Some _ \<Rightarrow>
                  (let (t1, s2) = time_Now s1;
                       (t2, s3) = time_Now s2
                   in Some (Format t1 ''20060102150405'' @ ''-'' @ Format t2 ''000000'', s3))
              | None \<Rightarrow> Some (hex_EncodeToString bytes, s1)))"

text \<open>
  \<^verbatim>\<open>
  type BaseEvent struct { ID string; Type string; Time time.Time; Aggregate string; Version int }
  func NewBaseEvent(eventType, aggregateID string, version int) BaseEvent {
      return BaseEvent{ID: generateEventID(), Type: eventType, Time: time.Now().UTC(),
                       Aggregate: aggregateID, Version: version}
  }
  \<close>
  The fields of the literal are evaluated in the order written. \<^verbatim>\<open>Version\<close> is only stored,
  so the width of \<^verbatim>\<open>int\<close> plays no part. The result is \<open>None\<close> when the process ends
  inside \<open>generateEventID\<close>.
\<close>

record BaseEvent =
  ID :: string
  Type :: string
  Time :: time_Time
  Aggregate :: string
  Version :: int

definition NewBaseEvent ::
  "(time_Time \<Rightarrow> string \<Rightarrow> string) \<Rightarrow> string \<Rightarrow> string \<Rightarrow> int \<Rightarrow> sys
     \<Rightarrow> (BaseEvent \<times> sys) option" where
  "NewBaseEvent Format eventType aggregateID version s =
     (case generateEventID Format s of
        None \<Rightarrow> None
      | Some (eid, s1) \<Rightarrow>
          (let (now, s2) = time_Now s1
           in Some (\<lparr>ID = eid, Type = eventType, Time = time_UTC now,
                     Aggregate = aggregateID, Version = version\<rparr>, s2)))"

text \<open>\<^verbatim>\<open>func (e BaseEvent) EventID() string { return e.ID }\<close>\<close>

definition EventID :: "BaseEvent \<Rightarrow> string" where
  "EventID e = ID e"

section \<open>Concrete inputs\<close>

text \<open>
  Commands, modules and handlers after those of the repository's tests. The handlers of the
  router count their invocations in the world, a natural number.
\<close>

definition counting :: "string \<Rightarrow> (unit, string, string, nat) HandlerFunc" where
  "counting r ctx cmd w = ((Some r, None), Suc w)"

definition CreateUserCommand :: rtype where
  "CreateUserCommand = Named ''gocmdevt.CreateUserCommand''"

definition DeleteUserCommand :: rtype where
  "DeleteUserCommand = Named ''gocmdevt.DeleteUserCommand''"

definition UserModule :: "(unit, string, string, nat) HandlerFunc Module" where
  "UserModule = \<lparr>Handlers = [(Some (Pointer CreateUserCommand), counting ''123''),
                              (Some (Pointer DeleteUserCommand), counting ''deleted'')]\<rparr>"

definition OverrideModule :: "(unit, string, string, nat) HandlerFunc Module" where
  "OverrideModule = \<lparr>Handlers = [(Some (Pointer CreateUserCommand), counting ''overridden'')]\<rparr>"

definition UpdateUserCommand :: rtype where
  "UpdateUserCommand = Named ''gocmdevt.UpdateUserCommand''"

definition AdminModule :: "(unit, string, string, nat) HandlerFunc Module" where
  "AdminModule = \<lparr>Handlers = [(Some (Pointer UpdateUserCommand), counting ''updated'')]\<rparr>"

definition emptyApp :: "(unit, string, string, nat) HandlerFunc App" where
  "emptyApp = NewApp []"

text \<open>
  Events and subscribers. A subscriber of the dispatcher of package main appends its name to
  the world, a list of names, and returns the error it is given.
\<close>

definition tracer :: "string \<Rightarrow> error option \<Rightarrow> (unit, string, string, string list) EventHandlerFunc" where
  "tracer name err ctx event w = ((None, err), w @ [name])"

definition StudentCreated :: "string iface" where
  "StudentCreated = Dyn (Named ''gocmdevt.BaseEvent'') ''student-123''"

definition OrderCreated :: "string iface" where
  "OrderCreated = Dyn (Pointer (Named ''gocmdevt_test.OrderCreatedEvent'')) ''order-1''"

definition twoSubscribers :: "(unit, string, string, string list) EventHandlerFunc InMemoryDispatcher" where
  "twoSubscribers =
     Subscribe (Subscribe NewInMemoryDispatcher StudentCreated (tracer ''H1'' None))
       StudentCreated (tracer ''H2'' None)"

definition failingFirst :: "(unit, string, string, string list) EventHandlerFunc InMemoryDispatcher" where
  "failingFirst =
     Subscribe (Subscribe NewInMemoryDispatcher StudentCreated (tracer ''H1'' (Some (Error ''H1 failed''))))
       StudentCreated (tracer ''H2'' None)"

text \<open>
  Collaborators of the emitter: a log writer that succeeds and one that fails, each leaving a
  line in the log, and the dispatcher of \<^verbatim>\<open>example_test.go\<close> with two subscribers.
\<close>

definition ConsoleEventLogger :: "string iface \<Rightarrow> world \<Rightarrow> error option \<times> world" where
  "ConsoleEventLogger event w = (None, log_Printf ''[EVENT LOG]'' w)"

definition FailingEventLogger :: "string iface \<Rightarrow> world \<Rightarrow> error option \<times> world" where
  "FailingEventLogger event w = (Some (Error ''disk full''), log_Printf ''[EVENT LOG] attempted'' w)"

definition notify :: "string \<Rightarrow> string iface \<Rightarrow> world \<Rightarrow> world" where
  "notify name event w = log_Printf (''[HANDLER] '' @ name) w"

definition exampleDispatcher :: "(string iface \<Rightarrow> world \<Rightarrow> world) InMemoryDispatcher" where
  "exampleDispatcher =
     Subscribe_example
       (Subscribe_example NewInMemoryDispatcher (reflect_TypeOf OrderCreated) (notify ''H1''))
       (reflect_TypeOf OrderCreated) (notify ''H2'')"

definition okEmitter :: "(unit, string, world) EventEmitter" where
  "okEmitter = NewEventEmitter ConsoleEventLogger (Dispatch_example exampleDispatcher)"

definition failingEmitter :: "(unit, string, world) EventEmitter" where
  "failingEmitter = NewEventEmitter FailingEventLogger (Dispatch_example exampleDispatcher)"

text \<open>
  Clocks and random sources: one without entropy, one that delivers the same bytes at every
  read, one that delivers other bytes at every read. \<open>stubFormat\<close> is put for
  \<^verbatim>\<open>Time.Format\<close>; it returns the layout as it is.
\<close>

definition stubFormat :: "time_Time \<Rightarrow> string \<Rightarrow> string" where
  "stubFormat t layout = layout"

definition tickingClock :: "nat \<Rightarrow> time_Time" where
  "tickingClock n = \<lparr>instant = int n, loc = Local\<rparr>"

definition sysNoEntropy :: sys where
  "sysNoEntropy = \<lparr>clock = tickingClock, ticks = 0,
                    entropy = (\<lambda>n. Inl (Error ''entropy unavailable'')), reads = 0\<rparr>"

definition sysRepeating :: sys where
  "sysRepeating = \<lparr>clock = tickingClock, ticks = 0,
                    entropy = (\<lambda>n. Inr (\<lambda>i. 0xab)), reads = 0\<rparr>"

definition sysFresh :: sys where
  "sysFresh = \<lparr>clock = tickingClock, ticks = 0,
                entropy = (\<lambda>n. Inr (\<lambda>i. of_nat n)), reads = 0\<rparr>"

text \<open>Two emissions one after the other, and the identifier of an emission.\<close>

definition firstEvent :: "sys \<Rightarrow> (BaseEvent \<times> sys) option" where
  "firstEvent s = NewBaseEvent stubFormat ''OrderCreated'' ''order-1'' 1 s"

definition secondEvent :: "sys \<Rightarrow> (BaseEvent \<times> sys) option" where
  "secondEvent s =
     (case firstEvent s of
        None \<Rightarrow> None
      | Some (e, s1) \<Rightarrow> NewBaseEvent stubFormat ''OrderCreated'' ''order-1'' 1 s1)"

definition emittedID :: "(BaseEvent \<times> sys) option \<Rightarrow> string option" where
  "emittedID r = (case r of None \<Rightarrow> None | Some (e, s1) \<Rightarrow> Some (EventID e))"

section \<open>Properties of the router\<close>

lemma range_Handlers_handlers:
  "handlers (range_Handlers ps app) = handlers app ++ map_of (rev ps)"
proof (induction ps arbitrary: app)
  case Nil
  show ?case by simp
next
  case (Cons p ps)
  obtain k h where p: "p = (k, h)" by (cases p)
  show ?case unfolding p
    by (rule ext) (simp add: Cons.IH map_add_def split: option.splits)
qed

lemma range_modules_other:
  "\<forall>m \<in> set ms. k \<notin> fst ` set (Handlers m) \<Longrightarrow>
     handlers (range_modules ms app) k = handlers app k"
proof (induction ms arbitrary: app)
  case Nil
  show ?case by simp
next
  case (Cons m ms)
  have "map_of (rev (Handlers m)) k = None"
    using Cons.prems by (simp add: map_of_eq_None_iff)
  then show ?case using Cons by (simp add: range_Handlers_handlers map_add_def)
qed

lemma range_modules_append:
  "range_modules (ms @ ms') app = range_modules ms' (range_modules ms app)"
  by (induction ms arbitrary: app) simp_all

lemma map_of_rev_distinct:
  "distinct (map fst ps) \<Longrightarrow> map_of (rev ps) = map_of ps"
  by (rule map_of_inject_set[THEN iffD2]) (simp_all add: distinct_rev rev_map[symmetric])

text \<open>
  C1. Building the router inserts the entries of each module in the order of the module
  list, an entry overwriting the one already stored under its key: adding a module \<open>m\<close> at
  the end of the list overrides the map built so far with the entries of \<open>m\<close>; and the
  handler active for a key \<open>k\<close> after the build is the one of the last module of the list
  that registers \<open>k\<close>. \<open>NewApp\<close> returns a router for every list of modules: a collision is
  no error.
\<close>

theorem NewApp_last_registration_wins:
  assumes "distinct (map fst (Handlers m))"
      and "(k, h) \<in> set (Handlers m)"
      and "\<forall>m' \<in> set later. k \<notin> fst ` set (Handlers m')"
  shows "handlers (NewApp (earlier @ [m])) = handlers (NewApp earlier) ++ map_of (Handlers m)
       \<and> handlers (NewApp (earlier @ m # later)) k = Some h"
proof
  show "handlers (NewApp (earlier @ [m])) = handlers (NewApp earlier) ++ map_of (Handlers m)"
    using assms(1)
    by (simp add: NewApp_def range_modules_append range_Handlers_handlers map_of_rev_distinct)
  have "handlers (NewApp (earlier @ m # later)) k
      = handlers (range_Handlers (Handlers m) (range_modules earlier \<lparr>handlers = Map.empty\<rparr>)) k"
    using assms(3) by (simp add: NewApp_def range_modules_append range_modules_other)
  also have "\<dots> = Some h"
    using assms(1,2) by (simp add: range_Handlers_handlers map_of_rev_distinct map_add_def)
  finally show "handlers (NewApp (earlier @ m # later)) k = Some h" .
qed

theorem NewApp_last_registration_wins_witness:
  "distinct (map fst (Handlers OverrideModule))
   \<and> (Some (Pointer CreateUserCommand), counting ''overridden'') \<in> set (Handlers OverrideModule)
   \<and> Some (Pointer CreateUserCommand) \<notin> fst ` set (Handlers AdminModule)
   \<and> handlers (NewApp ([UserModule] @ [OverrideModule]))
       = handlers (NewApp [UserModule]) ++ map_of (Handlers OverrideModule)
   \<and> handlers (NewApp ([UserModule] @ OverrideModule # [AdminModule]))
         (Some (Pointer CreateUserCommand))
       = Some (counting ''overridden'')
   \<and> Handle (NewApp ([UserModule] @ OverrideModule # [AdminModule])) ()
         (Dyn (Pointer CreateUserCommand) ''John'') 0
       = ((Some ''overridden'', None), 1)"
proof -
  have h1: "distinct (map fst (Handlers OverrideModule))"
    by (simp add: OverrideModule_def)
  have h2: "(Some (Pointer CreateUserCommand), counting ''overridden'')
              \<in> set (Handlers OverrideModule)"
    by (simp add: OverrideModule_def)
  have h3: "Some (Pointer CreateUserCommand) \<notin> fst ` set (Handlers AdminModule)"
    by (simp add: AdminModule_def CreateUserCommand_def UpdateUserCommand_def)
  then have h3': "\<forall>m' \<in> set [AdminModule].
                   Some (Pointer CreateUserCommand) \<notin> fst ` set (Handlers m')"
    by simp
  note t = NewApp_last_registration_wins [OF h1 h2 h3', of "[UserModule]"]
  have c1: "handlers (NewApp ([UserModule] @ [OverrideModule]))
              = handlers (NewApp [UserModule]) ++ map_of (Handlers OverrideModule)"
    using t by blast
  have c2: "handlers (NewApp ([UserModule] @ OverrideModule # [AdminModule]))
              (Some (Pointer CreateUserCommand))
            = Some (counting ''overridden'')"
    using t by blast
  have c3: "Handle (NewApp ([UserModule] @ OverrideModule # [AdminModule])) ()
              (Dyn (Pointer CreateUserCommand) ''John'') 0
            = ((Some ''overridden'', None), 1)"
    by (simp only: Handle_def reflect_TypeOf.simps c2 option.case) (simp add: counting_def)
  show ?thesis using h1 h2 h3 c1 c2 c3 by blast
qed

text \<open>
  C2. When no handler is registered under the type of the command, \<open>Handle\<close> returns the nil
  result and an error whose message is \<^verbatim>\<open>no handler for command type: \<close> followed by the
  name of the command's dynamic type; the world is the one it was called in, so no handler
  ran.
\<close>

theorem Handle_unregistered:
  assumes "handlers a (reflect_TypeOf cmd) = None"
  shows "Handle a ctx cmd w =
           ((None, Some (Error (''no handler for command type: '' @ fmt_T cmd))), w)"
  using assms by (simp add: Handle_def)

theorem Handle_unregistered_witness:
  "handlers (NewApp [UserModule]) (reflect_TypeOf (Dyn DeleteUserCommand ''x'')) = None
   \<and> Handle (NewApp [UserModule]) () (Dyn DeleteUserCommand ''x'') 0 =
       ((None, Some (Error ''no handler for command type: gocmdevt.DeleteUserCommand'')), 0)"
proof -
  have h: "handlers (NewApp [UserModule]) (reflect_TypeOf (Dyn DeleteUserCommand ''x'')) = None"
    by (simp add: NewApp_def UserModule_def DeleteUserCommand_def CreateUserCommand_def)
  show ?thesis
    using h Handle_unregistered [OF h, of "()" 0] by (simp add: fmt_T_def DeleteUserCommand_def)
qed

text \<open>
  C3. When a handler is registered under the type of the command, \<open>Handle\<close> is one call of
  that handler with the context and the command it was given: the result, the error and
  the world after the call are those of the handler, unchanged.
\<close>

theorem Handle_pass_through:
  assumes "handlers a (reflect_TypeOf cmd) = Some h"
  shows "Handle a ctx cmd w = h ctx cmd w"
  using assms by (simp add: Handle_def)

theorem Handle_pass_through_witness:
  "handlers (NewApp [UserModule]) (reflect_TypeOf (Dyn (Pointer DeleteUserCommand) ''x''))
     = Some (counting ''deleted'')
   \<and> Handle (NewApp [UserModule]) () (Dyn (Pointer DeleteUserCommand) ''x'') 0 =
       ((Some ''deleted'', None), 1)"
proof -
  have h: "handlers (NewApp [UserModule]) (reflect_TypeOf (Dyn (Pointer DeleteUserCommand) ''x''))
             = Some (counting ''deleted'')"
    by (simp add: NewApp_def UserModule_def DeleteUserCommand_def CreateUserCommand_def)
  show ?thesis
    using h Handle_pass_through [OF h, of "()" 0] by (simp add: counting_def)
qed

lemma Pointer_neq: "Pointer t \<noteq> t"
  by (induction t) simp_all

text \<open>
  C7. A type and the pointer type on it are different keys. Registering a handler under
  the pointer type leaves the dispatch of a command of the value type as it was, and the
  other way round; so where the other form had no handler, its dispatch fails with the
  error of C2. A command of exactly the registered type goes to the registered handler.
  Registering is the assignment \<^verbatim>\<open>app.handlers[typ] = h\<close> of \<open>NewApp\<close>, here
  \<open>range_Handlers\<close> on the one entry.
\<close>

theorem pointer_value_type_identity:
  "Pointer t \<noteq> t
   \<and> Handle (range_Handlers [(Some (Pointer t), h)] a) ctx (Dyn t p) w = Handle a ctx (Dyn t p) w
   \<and> Handle (range_Handlers [(Some t, h)] a) ctx (Dyn (Pointer t) p) w
       = Handle a ctx (Dyn (Pointer t) p) w
   \<and> (handlers a (Some t) = None \<longrightarrow>
        Handle (range_Handlers [(Some (Pointer t), h)] a) ctx (Dyn t p) w
          = ((None, Some (Error (''no handler for command type: '' @ rtype_String t))), w))
   \<and> (handlers a (Some (Pointer t)) = None \<longrightarrow>
        Handle (range_Handlers [(Some t, h)] a) ctx (Dyn (Pointer t) p) w
          = ((None, Some (Error (''no handler for command type: *'' @ rtype_String t))), w))
   \<and> Handle (range_Handlers [(Some t, h)] a) ctx (Dyn t p) w = h ctx (Dyn t p) w"
  using Pointer_neq [of t] by (auto simp: Handle_def fmt_T_def)

theorem pointer_value_type_identity_witness:
  "handlers emptyApp (Some CreateUserCommand) = None
   \<and> handlers emptyApp (Some (Pointer CreateUserCommand)) = None
   \<and> Handle (range_Handlers [(Some (Pointer CreateUserCommand), counting ''handled'')] emptyApp)
        () (Dyn CreateUserCommand ''Test'') 0
       = ((None, Some (Error ''no handler for command type: gocmdevt.CreateUserCommand'')), 0)
   \<and> Handle (range_Handlers [(Some CreateUserCommand, counting ''handled'')] emptyApp)
        () (Dyn (Pointer CreateUserCommand) ''Test'') 0
       = ((None, Some (Error ''no handler for command type: *gocmdevt.CreateUserCommand'')), 0)
   \<and> Handle (range_Handlers [(Some CreateUserCommand, counting ''handled'')] emptyApp)
        () (Dyn CreateUserCommand ''Test'') 0
       = ((Some ''handled'', None), 1)"
proof -
  have h1: "handlers emptyApp (Some CreateUserCommand) = None"
    by (simp add: emptyApp_def NewApp_def)
  have h2: "handlers emptyApp (Some (Pointer CreateUserCommand)) = None"
    by (simp add: emptyApp_def NewApp_def)
  have s: "rtype_String CreateUserCommand = ''gocmdevt.CreateUserCommand''"
    by (simp add: CreateUserCommand_def)
  have c: "counting ''handled'' () (Dyn CreateUserCommand ''Test'') 0 = ((Some ''handled'', None), 1)"
    by (simp add: counting_def)
  from pointer_value_type_identity
         [of CreateUserCommand "counting ''handled''" emptyApp "()" "''Test''" 0]
  show ?thesis
    unfolding s c using h1 h2 by (simp add: Handle_def fmt_T_def s)
qed

section \<open>Properties of the subscription registry\<close>

lemma range_handlers_foldl:
  "range_handlers hs ctx event w = foldl (\<lambda>w h. snd (h ctx event w)) w hs"
  by (induction hs arbitrary: w) simp_all

lemma range_handlers_append:
  "range_handlers (hs @ hs') ctx event w = range_handlers hs' ctx event (range_handlers hs ctx event w)"
  by (induction hs arbitrary: w) simp_all

lemma handlers_d_Subscribe:
  "handlers_d (Subscribe d event h) k =
     (if k = reflect_TypeOf event then Some (index_slices (handlers_d d) k @ [h]) else handlers_d d k)"
  by (simp add: Subscribe_def Let_def)

lemma DispatchCtx_Subscribe:
  "DispatchCtx (Subscribe d event' h) ctx event w =
     (if reflect_TypeOf event' = reflect_TypeOf event
      then snd (h ctx event (DispatchCtx d ctx event w))
      else DispatchCtx d ctx event w)"
  by (simp add: DispatchCtx_def handlers_d_Subscribe index_slices_def range_handlers_append
           split: option.splits)

lemma DispatchCtx_subscribed_in_order:
  "reflect_TypeOf event' = reflect_TypeOf event \<Longrightarrow>
   DispatchCtx (foldl (\<lambda>d h. Subscribe d event' h) d hs) ctx event w =
     range_handlers hs ctx event (DispatchCtx d ctx event w)"
proof (induction hs arbitrary: d)
  case Nil
  show ?case by simp
next
  case (Cons h hs)
  show ?case by (simp add: Cons.IH [OF Cons.prems] DispatchCtx_Subscribe Cons.prems)
qed

lemma DispatchCtx_New: "DispatchCtx NewInMemoryDispatcher ctx event w = w"
  by (simp add: DispatchCtx_def NewInMemoryDispatcher_def)

text \<open>
  C5. When the map has no entry for the type of the event, \<open>DispatchCtx\<close> leaves the world
  as it is: no handler runs, and the function has no result in which to signal an error.
  When it has the entry \<open>hs\<close>, the world after the dispatch is the one reached by calling
  the handlers of \<open>hs\<close> one after the other from the first, each once, each with the
  context and the event of the dispatch, each on the world the one before it left. The
  order of the list is the order of subscription: after subscribing the handlers of
  \<open>subscribed\<close> in turn to a new dispatcher, a dispatch calls them in that order.
\<close>

theorem DispatchCtx_fan_out:
  "(handlers_d d (reflect_TypeOf event) = None \<longrightarrow> DispatchCtx d ctx event w = w)
   \<and> (\<forall>hs. handlers_d d (reflect_TypeOf event) = Some hs \<longrightarrow>
         DispatchCtx d ctx event w = foldl (\<lambda>w h. snd (h ctx event w)) w hs)
   \<and> DispatchCtx (foldl (\<lambda>d h. Subscribe d event h) NewInMemoryDispatcher subscribed) ctx event w
       = foldl (\<lambda>w h. snd (h ctx event w)) w subscribed"
proof (intro conjI allI impI)
  assume "handlers_d d (reflect_TypeOf event) = None"
  then show "DispatchCtx d ctx event w = w" by (simp add: DispatchCtx_def)
next
  fix hs assume "handlers_d d (reflect_TypeOf event) = Some hs"
  then show "DispatchCtx d ctx event w = foldl (\<lambda>w h. snd (h ctx event w)) w hs"
    by (simp add: DispatchCtx_def range_handlers_foldl)
next
  show "DispatchCtx (foldl (\<lambda>d h. Subscribe d event h) NewInMemoryDispatcher subscribed) ctx event w
       = foldl (\<lambda>w h. snd (h ctx event w)) w subscribed"
    by (simp add: DispatchCtx_subscribed_in_order range_handlers_foldl DispatchCtx_New)
qed

theorem DispatchCtx_fan_out_witness:
  "handlers_d twoSubscribers (reflect_TypeOf OrderCreated) = None
   \<and> DispatchCtx twoSubscribers () OrderCreated [] = []
   \<and> handlers_d twoSubscribers (reflect_TypeOf StudentCreated) = Some [tracer ''H1'' None, tracer ''H2'' None]
   \<and> DispatchCtx twoSubscribers () StudentCreated [] = [''H1'', ''H2'']"
proof -
  have h1: "handlers_d twoSubscribers (reflect_TypeOf OrderCreated) = None"
    by (simp add: twoSubscribers_def handlers_d_Subscribe NewInMemoryDispatcher_def
          OrderCreated_def StudentCreated_def)
  have h2: "handlers_d twoSubscribers (reflect_TypeOf StudentCreated)
              = Some [tracer ''H1'' None, tracer ''H2'' None]"
    by (simp add: twoSubscribers_def handlers_d_Subscribe NewInMemoryDispatcher_def
          index_slices_def)
  note t1 = DispatchCtx_fan_out [of twoSubscribers OrderCreated "()" "[]" "[]"]
  note t2 = DispatchCtx_fan_out [of twoSubscribers StudentCreated "()" "[]" "[]"]
  have c1: "DispatchCtx twoSubscribers () OrderCreated [] = []"
    using t1 h1 by blast
  have "DispatchCtx twoSubscribers () StudentCreated []
          = foldl (\<lambda>w h. snd (h () StudentCreated w)) [] [tracer ''H1'' None, tracer ''H2'' None]"
    using t2 h2 by blast
  then have c2: "DispatchCtx twoSubscribers () StudentCreated [] = [''H1'', ''H2'']"
    by (simp add: tracer_def)
  show ?thesis using h1 c1 h2 c2 by blast
qed

text \<open>
  C6. With \<open>H1\<close> subscribed before \<open>H2\<close> under the type of the event, when \<open>H1\<close> returns an
  error, the dispatch goes on: the handlers between them run, then \<open>H2\<close> is called with the
  same context and event, on the world they left, then the handlers after it.
\<close>

theorem DispatchCtx_failure_isolation:
  assumes "handlers_d d (reflect_TypeOf event) = Some (pre @ H1 # mid @ H2 # post)"
      and "snd (fst (H1 ctx event (range_handlers pre ctx event w))) = Some err"
  shows "DispatchCtx d ctx event w =
           range_handlers post ctx event
             (snd (H2 ctx event
                (range_handlers mid ctx event
                   (snd (H1 ctx event (range_handlers pre ctx event w))))))"
  using assms(1) by (simp add: DispatchCtx_def range_handlers_append)

theorem DispatchCtx_failure_isolation_witness:
  "handlers_d failingFirst (reflect_TypeOf StudentCreated)
     = Some ([] @ tracer ''H1'' (Some (Error ''H1 failed'')) # [] @ tracer ''H2'' None # [])
   \<and> snd (fst (tracer ''H1'' (Some (Error ''H1 failed'')) () StudentCreated
                 (range_handlers [] () StudentCreated []))) = Some (Error ''H1 failed'')
   \<and> DispatchCtx failingFirst () StudentCreated [] = [''H1'', ''H2'']"
proof -
  have h1: "handlers_d failingFirst (reflect_TypeOf StudentCreated)
     = Some ([] @ tracer ''H1'' (Some (Error ''H1 failed'')) # [] @ tracer ''H2'' None # [])"
    by (simp add: failingFirst_def handlers_d_Subscribe NewInMemoryDispatcher_def index_slices_def)
  have h2: "snd (fst (tracer ''H1'' (Some (Error ''H1 failed'')) () StudentCreated
                 (range_handlers [] () StudentCreated []))) = Some (Error ''H1 failed'')"
    by (simp add: tracer_def)
  note T = DispatchCtx_failure_isolation [OF h1]
  note T2 = T[OF h2]
  have c: "DispatchCtx failingFirst () StudentCreated [] = [''H1'', ''H2'']"
    using T2 by (simp add: tracer_def)
  show ?thesis using h1 h2 c by blast
qed

text \<open>
  C10. \<open>Subscribe\<close> changes the entry of one key only: the list under the type of the event
  becomes the old list with the handler added at its end, a list of that one handler when
  there was none, and the entry of every other key stays as it was. The same holds of the
  \<open>Subscribe\<close> of \<^verbatim>\<open>example_test.go\<close>, which is given the key itself.
\<close>

theorem Subscribe_frame:
  "(handlers_d d (reflect_TypeOf event) = None \<longrightarrow>
        handlers_d (Subscribe d event h) (reflect_TypeOf event) = Some [h])
   \<and> (\<forall>hs. handlers_d d (reflect_TypeOf event) = Some hs \<longrightarrow>
        handlers_d (Subscribe d event h) (reflect_TypeOf event) = Some (hs @ [h]))
   \<and> (\<forall>k'. k' \<noteq> reflect_TypeOf event \<longrightarrow>
        handlers_d (Subscribe d event h) k' = handlers_d d k')
   \<and> (handlers_d d k = None \<longrightarrow> handlers_d (Subscribe_example d k h) k = Some [h])
   \<and> (\<forall>hs. handlers_d d k = Some hs \<longrightarrow>
        handlers_d (Subscribe_example d k h) k = Some (hs @ [h]))
   \<and> (\<forall>k'. k' \<noteq> k \<longrightarrow> handlers_d (Subscribe_example d k h) k' = handlers_d d k')"
  by (simp add: Subscribe_def Subscribe_example_def Let_def index_slices_def)

theorem Subscribe_frame_witness:
  "handlers_d (NewInMemoryDispatcher :: (unit, string, string, string list) EventHandlerFunc InMemoryDispatcher)
       (reflect_TypeOf StudentCreated) = None
   \<and> handlers_d (Subscribe NewInMemoryDispatcher StudentCreated (tracer ''H1'' None))
       (reflect_TypeOf StudentCreated) = Some [tracer ''H1'' None]
   \<and> handlers_d twoSubscribers (reflect_TypeOf StudentCreated)
       = Some [tracer ''H1'' None, tracer ''H2'' None]
   \<and> handlers_d (Subscribe twoSubscribers StudentCreated (tracer ''H3'' None))
         (reflect_TypeOf StudentCreated)
       = Some ([tracer ''H1'' None, tracer ''H2'' None] @ [tracer ''H3'' None])
   \<and> reflect_TypeOf OrderCreated \<noteq> reflect_TypeOf StudentCreated
   \<and> handlers_d (Subscribe twoSubscribers StudentCreated (tracer ''H3'' None))
         (reflect_TypeOf OrderCreated)
       = handlers_d twoSubscribers (reflect_TypeOf OrderCreated)
   \<and> handlers_d (Subscribe_example NewInMemoryDispatcher (reflect_TypeOf StudentCreated)
                   (tracer ''H1'' None))
       (reflect_TypeOf StudentCreated) = Some [tracer ''H1'' None]
   \<and> handlers_d (Subscribe_example twoSubscribers (reflect_TypeOf StudentCreated)
                   (tracer ''H3'' None))
         (reflect_TypeOf StudentCreated)
       = Some ([tracer ''H1'' None, tracer ''H2'' None] @ [tracer ''H3'' None])
   \<and> handlers_d (Subscribe_example twoSubscribers (reflect_TypeOf StudentCreated)
                   (tracer ''H3'' None))
         (reflect_TypeOf OrderCreated)
       = handlers_d twoSubscribers (reflect_TypeOf OrderCreated)"
proof -
  have h1: "handlers_d (NewInMemoryDispatcher :: (unit, string, string, string list) EventHandlerFunc InMemoryDispatcher)
              (reflect_TypeOf StudentCreated) = None"
    by (simp add: NewInMemoryDispatcher_def)
  have h2: "handlers_d twoSubscribers (reflect_TypeOf StudentCreated)
              = Some [tracer ''H1'' None, tracer ''H2'' None]"
    by (simp add: twoSubscribers_def handlers_d_Subscribe NewInMemoryDispatcher_def
          index_slices_def)
  have h3: "reflect_TypeOf OrderCreated \<noteq> reflect_TypeOf StudentCreated"
    by (simp add: OrderCreated_def StudentCreated_def)
  note t1 = Subscribe_frame [of NewInMemoryDispatcher StudentCreated "tracer ''H1'' None"
                               "reflect_TypeOf StudentCreated"]
  note t2 = Subscribe_frame [of twoSubscribers StudentCreated "tracer ''H3'' None"
                               "reflect_TypeOf StudentCreated"]
  have c1: "handlers_d (Subscribe NewInMemoryDispatcher StudentCreated (tracer ''H1'' None))
              (reflect_TypeOf StudentCreated) = Some [tracer ''H1'' None]"
    using t1 h1 by blast
  have c2: "handlers_d (Subscribe twoSubscribers StudentCreated (tracer ''H3'' None))
              (reflect_TypeOf StudentCreated)
            = Some ([tracer ''H1'' None, tracer ''H2'' None] @ [tracer ''H3'' None])"
    using t2 h2 by blast
  have c3: "handlers_d (Subscribe twoSubscribers StudentCreated (tracer ''H3'' None))
              (reflect_TypeOf OrderCreated)
            = handlers_d twoSubscribers (reflect_TypeOf OrderCreated)"
    using t2 h3 by blast
  have c4: "handlers_d (Subscribe_example NewInMemoryDispatcher (reflect_TypeOf StudentCreated)
                   (tracer ''H1'' None))
              (reflect_TypeOf StudentCreated) = Some [tracer ''H1'' None]"
    using t1 h1 by blast
  have c5: "handlers_d (Subscribe_example twoSubscribers (reflect_TypeOf StudentCreated)
                   (tracer ''H3'' None))
              (reflect_TypeOf StudentCreated)
            = Some ([tracer ''H1'' None, tracer ''H2'' None] @ [tracer ''H3'' None])"
    using t2 h2 by blast
  have c6: "handlers_d (Subscribe_example twoSubscribers (reflect_TypeOf StudentCreated)
                   (tracer ''H3'' None))
              (reflect_TypeOf OrderCreated)
            = handlers_d twoSubscribers (reflect_TypeOf OrderCreated)"
    using t2 h3 by blast
  show ?thesis using h1 c1 h2 c2 h3 c3 c4 c5 c6 by blast
qed

section \<open>Properties of the event pipeline\<close>

text \<open>
  C4. \<open>Emit\<close> calls \<open>Write\<close> once, on the world \<open>Emit\<close> was called in, and then calls
  \<open>Dispatch\<close> with the context and the event on the world \<open>Write\<close> left: every subscriber
  the dispatcher invokes runs after the write has returned. When \<open>Write\<close> returns an error
  the only difference is the line \<^verbatim>\<open>audit log failed: ...\<close> added to the log before the
  dispatch; \<open>Dispatch\<close> is called in both cases.
\<close>

theorem Emit_log_then_dispatch:
  "(fst (LogWriter e event w) = None \<longrightarrow>
      Emit e ctx event w = Dispatcher e ctx event (snd (LogWriter e event w)))
   \<and> (\<forall>err. fst (LogWriter e event w) = Some err \<longrightarrow>
      Emit e ctx event w =
        Dispatcher e ctx event
          (log_Printf (''audit log failed: '' @ error_Error err) (snd (LogWriter e event w))))"
  by (simp add: Emit_def fmt_v_def split: prod.splits)

lemma exampleDispatcher_run:
  "Dispatch_example exampleDispatcher () OrderCreated w
     = log_Printf ''[HANDLER] H2'' (log_Printf ''[HANDLER] H1'' w)"
  by (simp add: Dispatch_example_def exampleDispatcher_def Subscribe_example_def
        NewInMemoryDispatcher_def index_slices_def notify_def)

theorem Emit_log_then_dispatch_witness:
  "fst (LogWriter okEmitter OrderCreated \<lparr>stdlog = []\<rparr>) = None
   \<and> Emit okEmitter () OrderCreated \<lparr>stdlog = []\<rparr>
       = \<lparr>stdlog = [''[EVENT LOG]'', ''[HANDLER] H1'', ''[HANDLER] H2'']\<rparr>
   \<and> fst (LogWriter failingEmitter OrderCreated \<lparr>stdlog = []\<rparr>) = Some (Error ''disk full'')
   \<and> Emit failingEmitter () OrderCreated \<lparr>stdlog = []\<rparr>
       = \<lparr>stdlog = [''[EVENT LOG] attempted'', ''audit log failed: disk full'',
                    ''[HANDLER] H1'', ''[HANDLER] H2'']\<rparr>"
proof -
  have h1: "fst (LogWriter okEmitter OrderCreated \<lparr>stdlog = []\<rparr>) = None"
    by (simp add: okEmitter_def NewEventEmitter_def ConsoleEventLogger_def)
  have h2: "fst (LogWriter failingEmitter OrderCreated \<lparr>stdlog = []\<rparr>) = Some (Error ''disk full'')"
    by (simp add: failingEmitter_def NewEventEmitter_def FailingEventLogger_def)
  note t1 = Emit_log_then_dispatch [of okEmitter OrderCreated "\<lparr>stdlog = []\<rparr>" "()"]
  note t2 = Emit_log_then_dispatch [of failingEmitter OrderCreated "\<lparr>stdlog = []\<rparr>" "()"]
  have "Emit okEmitter () OrderCreated \<lparr>stdlog = []\<rparr>
          = Dispatcher okEmitter () OrderCreated (snd (LogWriter okEmitter OrderCreated \<lparr>stdlog = []\<rparr>))"
    using t1 h1 by blast
  then have c1: "Emit okEmitter () OrderCreated \<lparr>stdlog = []\<rparr>
       = \<lparr>stdlog = [''[EVENT LOG]'', ''[HANDLER] H1'', ''[HANDLER] H2'']\<rparr>"
    by (simp add: okEmitter_def NewEventEmitter_def ConsoleEventLogger_def exampleDispatcher_run
          log_Printf_def)
  have "Emit failingEmitter () OrderCreated \<lparr>stdlog = []\<rparr>
          = Dispatcher failingEmitter () OrderCreated
              (log_Printf (''audit log failed: '' @ error_Error (Error ''disk full''))
                 (snd (LogWriter failingEmitter OrderCreated \<lparr>stdlog = []\<rparr>)))"
    using t2 h2 by blast
  then have c2: "Emit failingEmitter () OrderCreated \<lparr>stdlog = []\<rparr>
       = \<lparr>stdlog = [''[EVENT LOG] attempted'', ''audit log failed: disk full'',
                    ''[HANDLER] H1'', ''[HANDLER] H2'']\<rparr>"
    by (simp add: failingEmitter_def NewEventEmitter_def FailingEventLogger_def exampleDispatcher_run
          log_Printf_def)
  show ?thesis using h1 c1 h2 c2 by blast
qed

section \<open>Properties of the event envelope\<close>

lemma hi_lt: "unat (drop_bit 4 (v :: 8 word)) < 16"
proof -
  have "unat v < 256" using unsigned_less [of v, where ?'a = nat] by simp
  then show ?thesis by (simp add: drop_bit_eq_div unat_div)
qed

lemma lo_lt: "unat ((v :: 8 word) AND 0x0f) < 16"
proof -
  have "v AND 0x0f \<le> 0x0f" by (rule word_and_le1)
  then show ?thesis by (simp add: word_le_nat_alt)
qed

lemma nibbles_eq:
  assumes "drop_bit 4 (u :: 8 word) = drop_bit 4 v" and "u AND 0x0f = v AND 0x0f"
  shows "u = v"
proof (rule bit_eqI)
  fix n
  show "bit u n \<longleftrightarrow> bit v n"
  proof (cases "n < 4")
    case True
    have m: "(0x0f :: 8 word) = mask 4" by (simp add: mask_eq_exp_minus_1)
    have "bit (u AND 0x0f) n \<longleftrightarrow> bit (v AND 0x0f) n" using assms(2) by simp
    then show ?thesis using True unfolding m by (simp add: bit_and_iff bit_mask_iff)
  next
    case False
    have "bit (drop_bit 4 u) (n - 4) \<longleftrightarrow> bit (drop_bit 4 v) (n - 4)" using assms(1) by simp
    then show ?thesis using False by (simp add: bit_drop_bit_eq)
  qed
qed

lemma distinct_hextable: "distinct hextable"
  by (simp add: hextable_def)

lemma hextable_inj:
  assumes "i < 16" and "j < 16" and "hextable ! i = hextable ! j"
  shows "i = j"
proof -
  have len: "length hextable = 16" by (simp add: hextable_def)
  from assms(1,2) have "i < length hextable" "j < length hextable" by (simp_all only: len)
  with assms(3) distinct_hextable show ?thesis by (simp only: nth_eq_iff_index_eq)
qed

lemma hex_byte_inj:
  assumes "hextable ! unat (drop_bit 4 (u :: 8 word)) = hextable ! unat (drop_bit 4 (v :: 8 word))"
      and "hextable ! unat (u AND 0x0f) = hextable ! unat (v AND 0x0f)"
  shows "u = v"
proof -
  have "unat (drop_bit 4 u) = unat (drop_bit 4 v)"
    by (rule hextable_inj [OF hi_lt hi_lt assms(1)])
  then have hi: "drop_bit 4 u = drop_bit 4 v"
    by (rule unsigned_word_eqI)
  have "unat (u AND 0x0f) = unat (v AND 0x0f)"
    by (rule hextable_inj [OF lo_lt lo_lt assms(2)])
  then have lo: "u AND 0x0f = v AND 0x0f"
    by (rule unsigned_word_eqI)
  show ?thesis by (rule nibbles_eq [OF hi lo])
qed

lemma hex_EncodeToString_inj:
  "length xs = length ys \<Longrightarrow> hex_EncodeToString xs = hex_EncodeToString ys \<Longrightarrow> xs = ys"
proof (induction xs ys rule: list_induct2)
  case Nil
  show ?case by simp
next
  case (Cons x xs y ys)
  then show ?case using hex_byte_inj [of x y] by simp
qed

lemma length_hex_EncodeToString: "length (hex_EncodeToString xs) = 2 * length xs"
  by (induction xs) simp_all

lemma rand_Read_ok:
  "entropy s (reads s) = Inr f \<Longrightarrow>
   rand_Read b s = Some ((map f [0..<length b], None), s\<lparr>reads := Suc (reads s)\<rparr>)"
  by (simp add: rand_Read_def)

lemma rand_Read_killed:
  "entropy s (reads s) = Inl err \<Longrightarrow> rand_Read b s = None"
  by (simp add: rand_Read_def)

lemma rand_Read_never_errs:
  "rand_Read b s = Some ((b', err), s1) \<Longrightarrow> err = None"
  by (auto simp: rand_Read_def split: sum.splits)

lemma generateEventID_random:
  assumes "entropy s (reads s) = Inr f"
  shows "generateEventID Format s =
           Some (hex_EncodeToString (map f [0..<16]), s\<lparr>reads := Suc (reads s)\<rparr>)"
  unfolding generateEventID_def Let_def rand_Read_ok [OF assms]
  by simp

lemma generateEventID_killed:
  assumes "entropy s (reads s) = Inl err"
  shows "generateEventID Format s = None"
  unfolding generateEventID_def Let_def rand_Read_killed [OF assms]
  by simp

lemma NewBaseEvent_random:
  assumes "entropy s (reads s) = Inr f"
  shows "NewBaseEvent Format eventType aggregateID version s =
           Some (\<lparr>ID = hex_EncodeToString (map f [0..<16]), Type = eventType,
                  Time = time_UTC (clock s (ticks s)),
                  Aggregate = aggregateID, Version = version\<rparr>,
                 s\<lparr>reads := Suc (reads s), ticks := Suc (ticks s)\<rparr>)"
  unfolding NewBaseEvent_def Let_def generateEventID_random [OF assms]
  by (simp add: time_Now_def)

lemma NewBaseEvent_killed:
  assumes "entropy s (reads s) = Inl err"
  shows "NewBaseEvent Format eventType aggregateID version s = None"
  unfolding NewBaseEvent_def generateEventID_killed [OF assms]
  by simp

text \<open>
  The branch of \<open>generateEventID\<close> that builds the identifier from the clock is never
  entered: an identifier that is returned is the hexadecimal form of the bytes read.
\<close>

lemma generateEventID_never_falls_back:
  assumes "generateEventID Format s = Some (eid, s1)"
  shows "\<exists>f. entropy s (reads s) = Inr f \<and> eid = hex_EncodeToString (map f [0..<16])
             \<and> ticks s1 = ticks s"
proof (cases "entropy s (reads s)")
  case (Inl err)
  from assms show ?thesis unfolding generateEventID_killed [OF Inl] by simp
next
  case (Inr f)
  from assms have "eid = hex_EncodeToString (map f [0..<16]) \<and> s1 = s\<lparr>reads := Suc (reads s)\<rparr>"
    unfolding generateEventID_random [OF Inr] by simp
  then show ?thesis using Inr by simp
qed

text \<open>
  C8. What the constructor does in the two cases of the random source. When the source
  fails, \<^verbatim>\<open>rand.Read\<close> does not return: the process ends there, the branch that would build
  the identifier from the clock is not reached, and no event is constructed. When the source
  delivers bytes, the constructor returns the event whose \<open>Type\<close>, \<open>Aggregate\<close> and \<open>Version\<close>
  are the arguments, whose \<open>Time\<close> is the reading of the clock in UTC and whose \<open>ID\<close> is the
  hexadecimal form of the bytes.
\<close>

theorem NewBaseEvent_outcome:
  "(\<forall>err. entropy s (reads s) = Inl err \<longrightarrow>
       NewBaseEvent Format eventType aggregateID version s = None)
   \<and> (\<forall>f. entropy s (reads s) = Inr f \<longrightarrow>
         NewBaseEvent Format eventType aggregateID version s =
           Some (\<lparr>ID = hex_EncodeToString (map f [0..<16]), Type = eventType,
                  Time = time_UTC (clock s (ticks s)),
                  Aggregate = aggregateID, Version = version\<rparr>,
                 s\<lparr>reads := Suc (reads s), ticks := Suc (ticks s)\<rparr>))"
proof (intro conjI allI impI)
  fix err assume "entropy s (reads s) = Inl err"
  then show "NewBaseEvent Format eventType aggregateID version s = None"
    by (rule NewBaseEvent_killed)
next
  fix f assume "entropy s (reads s) = Inr f"
  then show "NewBaseEvent Format eventType aggregateID version s =
           Some (\<lparr>ID = hex_EncodeToString (map f [0..<16]), Type = eventType,
                  Time = time_UTC (clock s (ticks s)),
                  Aggregate = aggregateID, Version = version\<rparr>,
                 s\<lparr>reads := Suc (reads s), ticks := Suc (ticks s)\<rparr>)"
    by (rule NewBaseEvent_random)
qed

lemma hex_ab: "hex_EncodeToString (map (\<lambda>i. 0xab) [0..<16]) = ''abababababababababababababababab''"
  by code_simp

lemma hex_00: "hex_EncodeToString (map (\<lambda>i. 0) [0..<16]) = ''00000000000000000000000000000000''"
  by code_simp

lemma hex_01: "hex_EncodeToString (map (\<lambda>i. 1) [0..<16]) = ''01010101010101010101010101010101''"
  by code_simp

theorem NewBaseEvent_outcome_witness:
  "entropy sysNoEntropy (reads sysNoEntropy) = Inl (Error ''entropy unavailable'')
   \<and> NewBaseEvent stubFormat ''student_created'' ''student-123'' 1 sysNoEntropy = None
   \<and> entropy sysRepeating (reads sysRepeating) = Inr (\<lambda>i. 0xab)
   \<and> NewBaseEvent stubFormat ''student_created'' ''student-123'' 1 sysRepeating =
       Some (\<lparr>ID = ''abababababababababababababababab'', Type = ''student_created'',
              Time = \<lparr>instant = 0, loc = UTC\<rparr>, Aggregate = ''student-123'', Version = 1\<rparr>,
             sysRepeating\<lparr>reads := Suc (reads sysRepeating), ticks := Suc (ticks sysRepeating)\<rparr>)"
proof -
  have h1: "entropy sysNoEntropy (reads sysNoEntropy) = Inl (Error ''entropy unavailable'')"
    by (simp add: sysNoEntropy_def)
  have h2: "entropy sysRepeating (reads sysRepeating) = Inr (\<lambda>i. 0xab)"
    by (simp add: sysRepeating_def)
  note t1 = NewBaseEvent_outcome
              [of sysNoEntropy stubFormat "''student_created''" "''student-123''" 1]
  note t2 = NewBaseEvent_outcome
              [of sysRepeating stubFormat "''student_created''" "''student-123''" 1]
  have c1: "NewBaseEvent stubFormat ''student_created'' ''student-123'' 1 sysNoEntropy = None"
    using t1 h1 by blast
  have "NewBaseEvent stubFormat ''student_created'' ''student-123'' 1 sysRepeating =
          Some (\<lparr>ID = hex_EncodeToString (map (\<lambda>i. 0xab) [0..<16]), Type = ''student_created'',
                 Time = time_UTC (clock sysRepeating (ticks sysRepeating)),
                 Aggregate = ''student-123'', Version = 1\<rparr>,
                sysRepeating\<lparr>reads := Suc (reads sysRepeating), ticks := Suc (ticks sysRepeating)\<rparr>)"
    using t2 h2 by blast
  moreover have "time_UTC (clock sysRepeating (ticks sysRepeating)) = \<lparr>instant = 0, loc = UTC\<rparr>"
    by (simp add: sysRepeating_def tickingClock_def time_UTC_def)
  ultimately have c2: "NewBaseEvent stubFormat ''student_created'' ''student-123'' 1 sysRepeating =
       Some (\<lparr>ID = ''abababababababababababababababab'', Type = ''student_created'',
              Time = \<lparr>instant = 0, loc = UTC\<rparr>, Aggregate = ''student-123'', Version = 1\<rparr>,
             sysRepeating\<lparr>reads := Suc (reads sysRepeating), ticks := Suc (ticks sysRepeating)\<rparr>)"
    by (simp only: hex_ab)
  show ?thesis using h1 c1 h2 c2 by blast
qed

lemma EventID_nonempty:
  assumes "NewBaseEvent Format eventType aggregateID version s = Some (e, s1)"
  shows "EventID e \<noteq> []"
proof (cases "entropy s (reads s)")
  case (Inl err)
  from assms show ?thesis unfolding NewBaseEvent_killed [OF Inl] by simp
next
  case (Inr f)
  have "length (hex_EncodeToString (map f [0..<16])) = 32"
    by (simp only: length_hex_EncodeToString length_map length_upt)
  then have ne: "hex_EncodeToString (map f [0..<16]) \<noteq> []"
    by (metis length_0_conv zero_neq_numeral)
  from assms have "ID e = hex_EncodeToString (map f [0..<16])"
    unfolding NewBaseEvent_random [OF Inr] by auto
  then have "EventID e = hex_EncodeToString (map f [0..<16])"
    by (simp only: EventID_def)
  with ne show ?thesis by metis
qed

text \<open>
  C9 (amended). The \<open>EventID\<close> of a constructed event is never the empty string. Of two
  constructions in which \<^verbatim>\<open>rand.Read\<close> succeeds, both return an event, and the identifiers
  are equal exactly when the two reads delivered the same 16 bytes: distinct emissions have
  distinct identifiers whenever the random source delivers different bytes, and nothing else
  in the constructor tells them apart.
\<close>

theorem EventID_unique_when_bytes_differ:
  "(\<forall>e s1. NewBaseEvent Format eventType aggregateID version s = Some (e, s1) \<longrightarrow>
       EventID e \<noteq> [])
   \<and> (\<forall>f g. entropy s (reads s) = Inr f \<and> entropy s' (reads s') = Inr g \<longrightarrow>
         (\<exists>e s1 e' s1'.
            NewBaseEvent Format eventType aggregateID version s = Some (e, s1)
            \<and> NewBaseEvent Format' eventType' aggregateID' version' s' = Some (e', s1')
            \<and> (EventID e = EventID e') = (map f [0..<16] = map g [0..<16])))"
proof (intro conjI allI impI)
  fix e s1
  assume "NewBaseEvent Format eventType aggregateID version s = Some (e, s1)"
  then show "EventID e \<noteq> []" by (rule EventID_nonempty)
next
  fix f g
  assume a: "entropy s (reads s) = Inr f \<and> entropy s' (reads s') = Inr g"
  have len: "length (map f [0..<16]) = length (map g [0..<16])"
    by (simp only: length_map)
  let ?e = "\<lparr>ID = hex_EncodeToString (map f [0..<16]), Type = eventType,
             Time = time_UTC (clock s (ticks s)),
             Aggregate = aggregateID, Version = version\<rparr>"
  let ?e' = "\<lparr>ID = hex_EncodeToString (map g [0..<16]), Type = eventType',
              Time = time_UTC (clock s' (ticks s')),
              Aggregate = aggregateID', Version = version'\<rparr>"
  have iff: "(EventID ?e = EventID ?e') = (map f [0..<16] = map g [0..<16])"
    unfolding EventID_def BaseEvent.simps
  proof (rule iffI)
    assume "hex_EncodeToString (map f [0..<16]) = hex_EncodeToString (map g [0..<16])"
    then show "map f [0..<16] = map g [0..<16]"
      by (rule hex_EncodeToString_inj [OF len])
  next
    assume "map f [0..<16] = map g [0..<16]"
    then show "hex_EncodeToString (map f [0..<16]) = hex_EncodeToString (map g [0..<16])"
      by (rule arg_cong)
  qed
  from NewBaseEvent_random [OF conjunct1 [OF a], of Format eventType aggregateID version]
       NewBaseEvent_random [OF conjunct2 [OF a], of Format' eventType' aggregateID' version']
       iff
  show "\<exists>e s1 e' s1'.
            NewBaseEvent Format eventType aggregateID version s = Some (e, s1)
            \<and> NewBaseEvent Format' eventType' aggregateID' version' s' = Some (e', s1')
            \<and> (EventID e = EventID e') = (map f [0..<16] = map g [0..<16])"
    by blast
qed

lemma emittedID_random:
  assumes "entropy s (reads s) = Inr f"
  shows "emittedID (NewBaseEvent Format eventType aggregateID version s)
           = Some (hex_EncodeToString (map f [0..<16]))"
  unfolding NewBaseEvent_random [OF assms] emittedID_def EventID_def by simp

lemma secondEvent_random:
  assumes "entropy s (reads s) = Inr f"
  shows "secondEvent s = NewBaseEvent stubFormat ''OrderCreated'' ''order-1'' 1
                           (s\<lparr>reads := Suc (reads s), ticks := Suc (ticks s)\<rparr>)"
  unfolding secondEvent_def firstEvent_def NewBaseEvent_random [OF assms] by simp

text \<open>
  C9 as stated fails: two successive constructions whose reads of the random source deliver
  the same bytes carry the same identifier.
\<close>

theorem EventID_repeated_counterexample:
  "emittedID (firstEvent sysRepeating) = Some ''abababababababababababababababab''
   \<and> emittedID (secondEvent sysRepeating) = Some ''abababababababababababababababab''"
proof -
  have r1: "entropy sysRepeating (reads sysRepeating) = Inr (\<lambda>i. 0xab)"
    by (simp add: sysRepeating_def)
  have r2: "entropy (sysRepeating\<lparr>reads := Suc (reads sysRepeating), ticks := Suc (ticks sysRepeating)\<rparr>)
              (reads (sysRepeating\<lparr>reads := Suc (reads sysRepeating), ticks := Suc (ticks sysRepeating)\<rparr>))
              = Inr (\<lambda>i. 0xab)"
    by (simp add: sysRepeating_def)
  have c1: "emittedID (firstEvent sysRepeating) = Some ''abababababababababababababababab''"
    unfolding firstEvent_def emittedID_random [OF r1] hex_ab ..
  have c2: "emittedID (secondEvent sysRepeating) = Some ''abababababababababababababababab''"
    unfolding secondEvent_random [OF r1] emittedID_random [OF r2] hex_ab ..
  show ?thesis using c1 c2 by blast
qed

theorem EventID_unique_when_bytes_differ_witness:
  "entropy sysFresh (reads sysFresh) = Inr (\<lambda>i. 0)
   \<and> entropy (sysFresh\<lparr>reads := Suc (reads sysFresh), ticks := Suc (ticks sysFresh)\<rparr>)
        (reads (sysFresh\<lparr>reads := Suc (reads sysFresh), ticks := Suc (ticks sysFresh)\<rparr>))
       = Inr (\<lambda>i. 1)
   \<and> emittedID (firstEvent sysFresh) = Some ''00000000000000000000000000000000''
   \<and> emittedID (secondEvent sysFresh) = Some ''01010101010101010101010101010101''
   \<and> emittedID (firstEvent sysFresh) \<noteq> Some []
   \<and> emittedID (firstEvent sysFresh) \<noteq> emittedID (secondEvent sysFresh)"
proof -
  let ?s1 = "sysFresh\<lparr>reads := Suc (reads sysFresh), ticks := Suc (ticks sysFresh)\<rparr>"
  have r1: "entropy sysFresh (reads sysFresh) = Inr (\<lambda>i. 0)"
    by (simp add: sysFresh_def)
  have r2: "entropy ?s1 (reads ?s1) = Inr (\<lambda>i. 1)"
    by (simp add: sysFresh_def)
  have e1: "emittedID (firstEvent sysFresh) = Some ''00000000000000000000000000000000''"
    unfolding firstEvent_def emittedID_random [OF r1] hex_00 ..
  have e2: "emittedID (secondEvent sysFresh) = Some ''01010101010101010101010101010101''"
    unfolding secondEvent_random [OF r1] emittedID_random [OF r2] hex_01 ..
  have ne: "map (\<lambda>i. 0 :: 8 word) [0..<16] \<noteq> map (\<lambda>i. 1) [0..<16]"
    by code_simp
  note t = EventID_unique_when_bytes_differ
         [of stubFormat "''OrderCreated''" "''order-1''" 1 sysFresh ?s1
             stubFormat "''OrderCreated''" "''order-1''" 1]
  from t r1 r2 obtain e s1 e' s1' where
      n1: "NewBaseEvent stubFormat ''OrderCreated'' ''order-1'' 1 sysFresh = Some (e, s1)"
    and n2: "NewBaseEvent stubFormat ''OrderCreated'' ''order-1'' 1 ?s1 = Some (e', s1')"
    and iff: "(EventID e = EventID e') = (map (\<lambda>i. 0 :: 8 word) [0..<16] = map (\<lambda>i. 1) [0..<16])"
    by blast
  from t n1 have nonempty: "EventID e \<noteq> []" by blast
  from iff ne have d: "EventID e \<noteq> EventID e'" by blast
  have f1: "emittedID (firstEvent sysFresh) = Some (EventID e)"
    unfolding firstEvent_def n1 emittedID_def by simp
  have f2: "emittedID (secondEvent sysFresh) = Some (EventID e')"
    unfolding secondEvent_random [OF r1] n2 emittedID_def by simp
  have c5: "emittedID (firstEvent sysFresh) \<noteq> Some []"
    unfolding f1 using nonempty by simp
  have c6: "emittedID (firstEvent sysFresh) \<noteq> emittedID (secondEvent sysFresh)"
    unfolding f1 f2 using d by simp
  show ?thesis using r1 r2 e1 e2 c5 c6 by blast
qed

end
